theory Spec2Isabelle
  imports Complex_Main "HOL-Library.Word"
begin

unbundle bit_operations_syntax

section \<open>G34 / M422: Z-stepper automatic alignment (Marlin/src/gcode/calibrate/G34\_M422.cpp)\<close>

text \<open>
  The two G-code handlers of the file are embedded as functions on an explicit machine
  state. Everything the handlers call in other modules (planner, stepper, probe, tool
  change, bed levelling, serial output) is recorded, in call order, in the trace \<open>out\<close>
  of the machine; where the handler later reads a global that such a call writes, the
  write is part of the state as well.

  Numbers: \<open>float\<close> values are real numbers (rounding is not represented); a probe
  result that is NaN is \<open>None\<close>. \<open>int8_t\<close> is \<open>8 word\<close> read with \<open>sint\<close>. The loop
  counters are \<open>uint8_t\<close> and stay below 128 (they are compared with an \<open>int8_t\<close> bound
  or with \<open>Z_STEPPER_COUNT\<close>), so they are natural numbers here.
  Output made only under \<open>DEBUGGING(LEVELING)\<close> is left out.
\<close>

subsection \<open>Build-time configuration (macros of Configuration.h / Conditionals)\<close>

record config =
  Z_TRIPLE_STEPPER_DRIVERS :: bool
  HOTENDS :: nat
  HAS_LEVELING :: bool
  RESTORE_LEVELING_AFTER_G34 :: bool
  CNC_WORKSPACE_PLANES :: bool
  HAS_DUPLICATION_MODE :: bool
  BLTOUCH_HS_MODE :: bool
  PARKING_EXTRUDER :: bool
  Z_CLEARANCE_BETWEEN_PROBES :: real
  G34_MAX_GRADE :: real
  X_MIN_POS :: real
  X_MAX_POS :: real
  Y_MIN_POS :: real
  Y_MAX_POS :: real

text \<open>The static assertion of the file: three entries with triple drivers, two otherwise.\<close>

definition Z_STEPPER_COUNT :: "config \<Rightarrow> nat" where
  "Z_STEPPER_COUNT cfg = (if Z_TRIPLE_STEPPER_DRIVERS cfg then 3 else 2)"

definition Z_BASIC_CLEARANCE :: "config \<Rightarrow> real" where
  "Z_BASIC_CLEARANCE cfg =
     (if BLTOUCH_HS_MODE cfg then Z_CLEARANCE_BETWEEN_PROBES cfg + 7
      else Z_CLEARANCE_BETWEEN_PROBES cfg)"

definition WITHIN :: "'a::linorder \<Rightarrow> 'a \<Rightarrow> 'a \<Rightarrow> bool" where
  "WITHIN v l h = (l \<le> v \<and> v \<le> h)"

definition HYPOT2 :: "real \<Rightarrow> real \<Rightarrow> real" where
  "HYPOT2 x y = x * x + y * y"

definition HYPOT :: "real \<Rightarrow> real \<Rightarrow> real" where
  "HYPOT x y = sqrt (HYPOT2 x y)"

subsection \<open>Machine state and trace\<close>

type_synonym xy_pos_t = "real \<times> real"

datatype ProbePtRaise = PROBE_PT_STOW | PROBE_PT_RAISE

datatype plane = PLANE_XY | PLANE_ZX | PLANE_YZ

datatype event =
    Echo string
  | EchoInt string int
  | EchoReal string real
  | EchoEOL
  | Synchronize
  | BedLeveling bool
  | ToolChange nat bool
  | HomeAllAxes
  | MoveToZ real
  | ProbeAtPoint xy_pos_t ProbePtRaise
  | SeparateMultiAxis bool
  | ZLock nat bool
  | AxisNotAtHomeZ
  | StowProbe
  | Subcommands string

record machine =
  z_auto_align_pos :: "xy_pos_t list"
  leveling_active :: bool
  active_extruder :: nat
  all_axes_known :: bool
  current_position_z :: real
  workspace_plane :: plane
  extruder_duplication_enabled :: bool
  locked_Z_motor :: bool
  locked_Z2_motor :: bool
  locked_Z3_motor :: bool
  separate_multi_axis :: bool
  out :: "event list"

text \<open>
  The surroundings of one run: what the probe reports at the point of stepper \<open>z\<close> in
  iteration \<open>k\<close> (\<open>None\<close> for NaN) and where each probing and the homing leave the Z
  coordinate. Every stepper is probed at most once per iteration, so any sequence of
  probe results is such a function.
\<close>

record env =
  probed_height :: "nat \<Rightarrow> nat \<Rightarrow> real option"
  z_after_probe :: "nat \<Rightarrow> nat \<Rightarrow> real"
  z_after_homing :: real

text \<open>The three constants G34 takes from the parser, at their declared types.\<close>

record g34_args =
  z_auto_align_iterations :: "8 word"
  z_auto_align_accuracy :: real
  z_auto_align_amplification :: real
  raise_after :: ProbePtRaise

text \<open>The local variables of G34, on top of the machine.\<close>

record frame = machine +
  z_probe :: real
  last_z_align_move :: "real list"
  z_measured :: "real list"
  z_maxdiff :: real
  amplification :: real
  iteration :: nat
  err_break :: bool
  z_measured_min :: real
  success_break :: bool

subsection \<open>Calls into other modules\<close>

definition emit :: "event \<Rightarrow> 'a machine_scheme \<Rightarrow> 'a machine_scheme" where
  "emit e s = s\<lparr>out := out s @ [e]\<rparr>"

definition planner_synchronize :: "'a machine_scheme \<Rightarrow> 'a machine_scheme" where
  "planner_synchronize s = emit Synchronize s"

definition set_bed_leveling_enabled :: "bool \<Rightarrow> 'a machine_scheme \<Rightarrow> 'a machine_scheme" where
  "set_bed_leveling_enabled b s = emit (BedLeveling b) (s\<lparr>leveling_active := b\<rparr>)"

definition tool_change :: "nat \<Rightarrow> bool \<Rightarrow> 'a machine_scheme \<Rightarrow> 'a machine_scheme" where
  "tool_change n no_move s = emit (ToolChange n no_move) (s\<lparr>active_extruder := n\<rparr>)"

definition home_all_axes :: "env \<Rightarrow> 'a machine_scheme \<Rightarrow> 'a machine_scheme" where
  "home_all_axes env s =
     emit HomeAllAxes (s\<lparr>all_axes_known := True, current_position_z := z_after_homing env\<rparr>)"

definition do_blocking_move_to_z :: "real \<Rightarrow> 'a machine_scheme \<Rightarrow> 'a machine_scheme" where
  "do_blocking_move_to_z z s = emit (MoveToZ z) (s\<lparr>current_position_z := z\<rparr>)"

definition probe_at_point ::
  "env \<Rightarrow> nat \<Rightarrow> nat \<Rightarrow> xy_pos_t \<Rightarrow> ProbePtRaise \<Rightarrow> 'a machine_scheme \<Rightarrow> 'a machine_scheme" where
  "probe_at_point env k z pos r s =
     emit (ProbeAtPoint pos r) (s\<lparr>current_position_z := z_after_probe env k z\<rparr>)"

definition set_separate_multi_axis :: "bool \<Rightarrow> 'a machine_scheme \<Rightarrow> 'a machine_scheme" where
  "set_separate_multi_axis b s = emit (SeparateMultiAxis b) (s\<lparr>separate_multi_axis := b\<rparr>)"

definition set_z_lock :: "bool \<Rightarrow> 'a machine_scheme \<Rightarrow> 'a machine_scheme" where
  "set_z_lock b s = emit (ZLock 0 b) (s\<lparr>locked_Z_motor := b\<rparr>)"

definition set_z2_lock :: "bool \<Rightarrow> 'a machine_scheme \<Rightarrow> 'a machine_scheme" where
  "set_z2_lock b s = emit (ZLock 1 b) (s\<lparr>locked_Z2_motor := b\<rparr>)"

definition set_z3_lock :: "bool \<Rightarrow> 'a machine_scheme \<Rightarrow> 'a machine_scheme" where
  "set_z3_lock b s = emit (ZLock 2 b) (s\<lparr>locked_Z3_motor := b\<rparr>)"

definition set_axis_is_not_at_home_Z :: "'a machine_scheme \<Rightarrow> 'a machine_scheme" where
  "set_axis_is_not_at_home_Z s = emit AxisNotAtHomeZ (s\<lparr>all_axes_known := False\<rparr>)"

definition STOW_PROBE :: "'a machine_scheme \<Rightarrow> 'a machine_scheme" where
  "STOW_PROBE s = emit StowProbe s"

definition process_subcommands_now :: "string \<Rightarrow> 'a machine_scheme \<Rightarrow> 'a machine_scheme" where
  "process_subcommands_now c s = emit (Subcommands c) s"

subsection \<open>set\_all\_z\_lock\<close>

definition set_all_z_lock :: "config \<Rightarrow> bool \<Rightarrow> 'a machine_scheme \<Rightarrow> 'a machine_scheme" where
  "set_all_z_lock cfg lock s =
     (let s1 = set_z_lock lock s;
          s2 = set_z2_lock lock s1
      in if Z_TRIPLE_STEPPER_DRIVERS cfg then set_z3_lock lock s2 else s2)"

subsection \<open>G34: the probing loop (lines 166 to 189)\<close>

text \<open>The stepper probed at position \<open>izstepper\<close> of the sequence (line 168).\<close>

definition zstepper_of :: "config \<Rightarrow> nat \<Rightarrow> nat \<Rightarrow> nat" where
  "zstepper_of cfg iter izstepper =
     (if iter AND 1 \<noteq> 0 then Z_STEPPER_COUNT cfg - 1 - izstepper else izstepper)"

text \<open>Lines 171 and 174: the clearance move and the call of the probe.\<close>

definition probe_point :: "config \<Rightarrow> env \<Rightarrow> g34_args \<Rightarrow> nat \<Rightarrow> nat \<Rightarrow> frame \<Rightarrow> frame" where
  "probe_point cfg env a iter izstepper s =
     (let zstepper = zstepper_of cfg iter izstepper;
          s1 = (if iter = 0 \<or> izstepper > 0 then do_blocking_move_to_z (z_probe s) s else s)
      in probe_at_point env iter zstepper (z_auto_align_pos s1 ! zstepper) (raise_after a) s1)"

text \<open>Lines 183 and 188.\<close>

definition store_measurement :: "config \<Rightarrow> nat \<Rightarrow> real \<Rightarrow> frame \<Rightarrow> frame" where
  "store_measurement cfg zstepper z_probed_height s =
     (let s1 = s\<lparr>z_measured :=
                  (z_measured s)[zstepper := z_probed_height + Z_CLEARANCE_BETWEEN_PROBES cfg]\<rparr>
      in s1\<lparr>z_measured_min := min (z_measured_min s1) (z_measured s1 ! zstepper)\<rparr>)"

function probe_loop :: "config \<Rightarrow> env \<Rightarrow> g34_args \<Rightarrow> nat \<Rightarrow> nat \<Rightarrow> frame \<Rightarrow> frame" where
  "probe_loop cfg env a iter izstepper s =
     (if izstepper < Z_STEPPER_COUNT cfg then
        (let zstepper = zstepper_of cfg iter izstepper;
             s1 = probe_point cfg env a iter izstepper s
         in case probed_height env iter zstepper of
              None \<Rightarrow> (emit (Echo ''Probing failed.'') s1)\<lparr>err_break := True\<rparr>
            | Some z_probed_height \<Rightarrow>
                probe_loop cfg env a iter (izstepper + 1)
                  (store_measurement cfg zstepper z_probed_height s1))
      else s)"
  by pat_completeness auto
termination
  by (relation "measure (\<lambda>(cfg, env, a, iter, izstepper, s). Z_STEPPER_COUNT cfg - izstepper)") auto

declare probe_loop.simps [simp del]

subsection \<open>G34: clearance update (lines 193 to 211)\<close>

definition update_clearance :: "config \<Rightarrow> frame \<Rightarrow> frame" where
  "update_clearance cfg s =
     (let m = z_measured s;
          s1 = (if Z_TRIPLE_STEPPER_DRIVERS cfg then
                  (let d = max (max \<bar>m ! 0 - m ! 1\<bar> \<bar>m ! 1 - m ! 2\<bar>) \<bar>m ! 2 - m ! 0\<bar>
                   in s\<lparr>z_maxdiff := d,
                        z_probe := Z_BASIC_CLEARANCE cfg + max (max (m ! 0) (m ! 1)) (m ! 2) + d\<rparr>)
                else
                  (let d = \<bar>m ! 0 - m ! 1\<bar>
                   in s\<lparr>z_maxdiff := d,
                        z_probe := Z_BASIC_CLEARANCE cfg + max (m ! 0) (m ! 1) + d\<rparr>));
          s2 = emit (EchoReal (CHR 0x0A # ''DIFFERENCE Z1-Z2='') \<bar>m ! 0 - m ! 1\<bar>) s1;
          s3 = (if Z_TRIPLE_STEPPER_DRIVERS cfg then
                  emit (EchoReal '' Z3-Z1='' \<bar>m ! 2 - m ! 0\<bar>)
                    (emit (EchoReal '' Z2-Z3='' \<bar>m ! 1 - m ! 2\<bar>) s2)
                else s2)
      in emit EchoEOL (emit EchoEOL s3))"

subsection \<open>G34: the correction loop (lines 218 to 253)\<close>

text \<open>Line 220: the move of one stepper, and line 221 its absolute value.\<close>

definition z_align_move :: "nat \<Rightarrow> frame \<Rightarrow> real" where
  "z_align_move zstepper s = z_measured s ! zstepper - z_measured_min s"

definition z_align_abs :: "nat \<Rightarrow> frame \<Rightarrow> real" where
  "z_align_abs zstepper s = \<bar>z_align_move zstepper s\<bar>"

text \<open>Line 224.\<close>

definition tune_amplification :: "g34_args \<Rightarrow> nat \<Rightarrow> nat \<Rightarrow> frame \<Rightarrow> frame" where
  "tune_amplification a iter zstepper s =
     (if z_align_abs zstepper s > 0 then
        s\<lparr>amplification :=
            (if iter = 1 then min (last_z_align_move s ! zstepper / z_align_abs zstepper s) 2
             else z_auto_align_amplification a)\<rparr>
      else s)"

text \<open>Line 227: the test for less accuracy than at the last move.\<close>

definition decreasing_accuracy :: "nat \<Rightarrow> frame \<Rightarrow> bool" where
  "decreasing_accuracy zstepper s =
     (last_z_align_move s ! zstepper < z_align_abs zstepper s - 1)"

text \<open>The \<open>switch\<close> of lines 243 to 249.\<close>

definition unlock_one :: "config \<Rightarrow> nat \<Rightarrow> 'a machine_scheme \<Rightarrow> 'a machine_scheme" where
  "unlock_one cfg zstepper s =
     (if zstepper = 0 then set_z_lock False s
      else if zstepper = 1 then set_z2_lock False s
      else if zstepper = 2 \<and> Z_TRIPLE_STEPPER_DRIVERS cfg then set_z3_lock False s
      else s)"

text \<open>Lines 234 to 252: what the loop does for a stepper that passed the test of line 227.\<close>

definition apply_correction :: "config \<Rightarrow> g34_args \<Rightarrow> nat \<Rightarrow> frame \<Rightarrow> frame" where
  "apply_correction cfg a zstepper s =
     (let s1 = s\<lparr>last_z_align_move := (last_z_align_move s)[zstepper := z_align_abs zstepper s]\<rparr>;
          s2 = (if z_align_abs zstepper s > z_auto_align_accuracy a
                then s1\<lparr>success_break := False\<rparr> else s1);
          s3 = set_all_z_lock cfg True s2;
          s4 = unlock_one cfg zstepper s3
      in do_blocking_move_to_z
           (amplification s4 * z_align_move zstepper s + current_position_z s4) s4)"

function correct_loop :: "config \<Rightarrow> g34_args \<Rightarrow> nat \<Rightarrow> nat \<Rightarrow> frame \<Rightarrow> frame" where
  "correct_loop cfg a iter zstepper s =
     (if zstepper < Z_STEPPER_COUNT cfg then
        (let s1 = tune_amplification a iter zstepper s
         in if decreasing_accuracy zstepper s1 then
              (emit (Echo ''Decreasing accuracy detected.'') s1)\<lparr>err_break := True\<rparr>
            else correct_loop cfg a iter (zstepper + 1) (apply_correction cfg a zstepper s1))
      else s)"
  by pat_completeness auto
termination
  by (relation "measure (\<lambda>(cfg, a, iter, zstepper, s). Z_STEPPER_COUNT cfg - zstepper)") auto

declare correct_loop.simps [simp del]

subsection \<open>G34: the iteration loop (lines 158 to 263)\<close>

text \<open>Lines 159 to 189: the announcement of the iteration and the probing of all steppers.\<close>

definition probe_all :: "config \<Rightarrow> env \<Rightarrow> g34_args \<Rightarrow> nat \<Rightarrow> frame \<Rightarrow> frame" where
  "probe_all cfg env a iter s =
     (let s1 = emit (EchoInt (CHR 0x0A # ''ITERATION: '') (int (iter + 1))) s;
          s2 = s1\<lparr>z_measured_min := 100000\<rparr>
      in probe_loop cfg env a iter 0 s2)"

text \<open>Lines 193 to 257: new clearance height, then the corrections in separate-axis mode.\<close>

definition correct_all :: "config \<Rightarrow> g34_args \<Rightarrow> nat \<Rightarrow> frame \<Rightarrow> frame" where
  "correct_all cfg a iter s =
     (let s1 = update_clearance cfg s;
          s2 = set_separate_multi_axis True s1;
          s3 = s2\<lparr>success_break := True\<rparr>;
          s4 = correct_loop cfg a iter 0 s3;
          s5 = set_all_z_lock cfg False s4
      in set_separate_multi_axis False s5)"

text \<open>
  One pass through the body, up to the two tests of lines 259 and 261. After a failed
  probe (line 191) the pass ends with \<open>err_break\<close> set and nothing else done.
\<close>

definition iteration_body :: "config \<Rightarrow> env \<Rightarrow> g34_args \<Rightarrow> nat \<Rightarrow> frame \<Rightarrow> frame" where
  "iteration_body cfg env a iter s =
     (let s1 = probe_all cfg env a iter s
      in if err_break s1 then s1 else correct_all cfg a iter s1)"

function iteration_loop :: "config \<Rightarrow> env \<Rightarrow> g34_args \<Rightarrow> nat \<Rightarrow> frame \<Rightarrow> frame" where
  "iteration_loop cfg env a iter s =
     (if int iter < sint (z_auto_align_iterations a) then
        (let s1 = iteration_body cfg env a iter s
         in if err_break s1 then s1\<lparr>iteration := iter\<rparr>
            else if success_break s1 then
              (emit (Echo ''Target accuracy achieved.'') s1)\<lparr>iteration := iter\<rparr>
            else iteration_loop cfg env a (iter + 1) s1)
      else s\<lparr>iteration := iter\<rparr>)"
  by pat_completeness auto
termination
  by (relation "measure (\<lambda>(cfg, env, a, iter, s). nat (sint (z_auto_align_iterations a)) - iter)") auto

declare iteration_loop.simps [simp del]

subsection \<open>G34: before and after the loop\<close>

definition initial_z_probe :: "config \<Rightarrow> xy_pos_t list \<Rightarrow> real" where
  "initial_z_probe cfg p =
     Z_BASIC_CLEARANCE cfg + G34_MAX_GRADE cfg * 0.01 *
       (if Z_TRIPLE_STEPPER_DRIVERS cfg then
          sqrt (max (max (HYPOT2 (fst (p ! 0) - snd (p ! 0)) (fst (p ! 1) - snd (p ! 1)))
                         (HYPOT2 (fst (p ! 1) - snd (p ! 1)) (fst (p ! 2) - snd (p ! 2))))
                    (HYPOT2 (fst (p ! 2) - snd (p ! 2)) (fst (p ! 0) - snd (p ! 0))))
        else HYPOT (fst (p ! 0) - snd (p ! 0)) (fst (p ! 1) - snd (p ! 1)))"

text \<open>Lines 99 to 157: from \<open>planner.synchronize()\<close> to the declaration of the locals.\<close>

definition G34_prepare :: "config \<Rightarrow> env \<Rightarrow> g34_args \<Rightarrow> machine \<Rightarrow> frame" where
  "G34_prepare cfg env a m =
     (let m1 = planner_synchronize m;
          m2 = (if HAS_LEVELING cfg then set_bed_leveling_enabled False m1 else m1);
          m3 = (if CNC_WORKSPACE_PLANES cfg then m2\<lparr>workspace_plane := PLANE_XY\<rparr> else m2);
          m4 = (if HOTENDS cfg > 1 then tool_change 0 True m3 else m3);
          m5 = (if HAS_DUPLICATION_MODE cfg then m4\<lparr>extruder_duplication_enabled := False\<rparr> else m4);
          z_probe0 = initial_z_probe cfg (z_auto_align_pos m5);
          m6 = (if \<not> all_axes_known m5 then home_all_axes env m5 else m5);
          m7 = m6\<lparr>current_position_z := current_position_z m6 - z_probe0 * 0.5\<rparr>
      in machine.extend m7
           \<lparr>z_probe = z_probe0,
            last_z_align_move = replicate (Z_STEPPER_COUNT cfg) 10000,
            z_measured = replicate (Z_STEPPER_COUNT cfg) 0,
            z_maxdiff = 0,
            amplification = z_auto_align_amplification a,
            iteration = 0,
            err_break = False,
            z_measured_min = 0,
            success_break = False\<rparr>)"

text \<open>
  Lines 267 to 294. \<open>leveling_was_active\<close> and \<open>old_tool_index\<close> are the values the
  two globals had when G34 read them (lines 105 and 116).
\<close>

definition G34_restore :: "config \<Rightarrow> g34_args \<Rightarrow> bool \<Rightarrow> nat \<Rightarrow> frame \<Rightarrow> frame" where
  "G34_restore cfg a leveling_was_active old_tool_index s =
     (let n = sint (z_auto_align_iterations a);
          s1 = emit (EchoInt ''Did '' (int (iteration s) + (if int (iteration s) \<noteq> n then 1 else 0))) s;
          s2 = emit (EchoInt '' iterations of '' n) s1;
          s3 = emit EchoEOL (emit (EchoReal ''Accuracy: '' (z_maxdiff s2)) s2);
          s4 = (if HOTENDS cfg > 1 then tool_change old_tool_index (\<not> PARKING_EXTRUDER cfg) s3 else s3);
          s5 = (if HAS_LEVELING cfg \<and> RESTORE_LEVELING_AFTER_G34 cfg
                then set_bed_leveling_enabled leveling_was_active s4 else s4);
          s6 = set_axis_is_not_at_home_Z s5;
          s7 = STOW_PROBE s6
      in process_subcommands_now ''G28 Z'' s7)"

subsection \<open>G34\<close>

definition G34 :: "config \<Rightarrow> env \<Rightarrow> g34_args \<Rightarrow> machine \<Rightarrow> machine" where
  "G34 cfg env a m =
     (if \<not> WITHIN (sint (z_auto_align_iterations a)) 1 30 then
        emit (Echo ''?(I)teration out of bounds (1-30).'') m
      else if \<not> WITHIN (z_auto_align_accuracy a) 0.01 1.0 then
        emit (Echo ''?(T)arget accuracy out of bounds (0.01-1.0).'') m
      else if \<not> WITHIN \<bar>z_auto_align_amplification a\<bar> 0.5 2.0 then
        emit (Echo ''?(A)mplification out of bounds (0.5-2.0).'') m
      else
        (let s = iteration_loop cfg env a 0 (G34_prepare cfg env a m)
         in if err_break s then machine.truncate (emit (Echo ''G34 aborted.'') s)
            else machine.truncate
                   (G34_restore cfg a (leveling_active m) (active_extruder m) s)))"

subsection \<open>M422\<close>

text \<open>
  \<open>S\<close> is the value of \<open>parser.intval('S')\<close> (0 when the parameter is absent), \<open>X\<close>
  and \<open>Y\<close> are the parameters when given. \<open>zstepper\<close> is an \<open>int8_t\<close>.
\<close>

definition M422 :: "config \<Rightarrow> int \<Rightarrow> real option \<Rightarrow> real option \<Rightarrow> machine \<Rightarrow> machine" where
  "M422 cfg S X Y m =
     (let zstepper = sint (word_of_int (S - 1) :: 8 word)
      in if \<not> WITHIN zstepper 0 (int (Z_STEPPER_COUNT cfg) - 1) then
           emit (Echo ''?(S) Z-Stepper index invalid.'') m
         else
           (let pos = (case X of Some x \<Rightarrow> x | None \<Rightarrow> fst (z_auto_align_pos m ! nat zstepper),
                       case Y of Some y \<Rightarrow> y | None \<Rightarrow> snd (z_auto_align_pos m ! nat zstepper))
            in if \<not> WITHIN (fst pos) (X_MIN_POS cfg) (X_MAX_POS cfg) then
                 emit (Echo ''?(X) out of bounds.'') m
               else if \<not> WITHIN (snd pos) (Y_MIN_POS cfg) (Y_MAX_POS cfg) then
                 emit (Echo ''?(Y) out of bounds.'') m
               else m\<lparr>z_auto_align_pos := (z_auto_align_pos m)[nat zstepper := pos]\<rparr>))"

subsection \<open>Concrete machines, surroundings and arguments\<close>

text \<open>
  A machine with two Z steppers, two hotends and bed levelling that is restored after
  G34; tool 1 is selected, levelling is active, all axes are homed and the trace is empty.
\<close>

definition cfg2 :: config where
  "cfg2 = \<lparr>Z_TRIPLE_STEPPER_DRIVERS = False, HOTENDS = 2, HAS_LEVELING = True,
     RESTORE_LEVELING_AFTER_G34 = True, CNC_WORKSPACE_PLANES = False,
     HAS_DUPLICATION_MODE = False, BLTOUCH_HS_MODE = False, PARKING_EXTRUDER = False,
     Z_CLEARANCE_BETWEEN_PROBES = 5, G34_MAX_GRADE = 5,
     X_MIN_POS = 0, X_MAX_POS = 235, Y_MIN_POS = 0, Y_MAX_POS = 235\<rparr>"

definition m0 :: machine where
  "m0 = \<lparr>z_auto_align_pos = [(10, 10), (200, 200)], leveling_active = True,
     active_extruder = 1, all_axes_known = True, current_position_z = 10,
     workspace_plane = PLANE_XY, extruder_duplication_enabled = False,
     locked_Z_motor = False, locked_Z2_motor = False, locked_Z3_motor = False,
     separate_multi_axis = False, out = []\<rparr>"

text \<open>Arguments: \<open>I3 T0.1 A1\<close>, and the three invalid ones of the specification.\<close>

definition a_ok :: g34_args where
  "a_ok = \<lparr>z_auto_align_iterations = 3, z_auto_align_accuracy = 0.1,
     z_auto_align_amplification = 1, raise_after = PROBE_PT_RAISE\<rparr>"

definition a_bad_I :: g34_args where
  "a_bad_I = a_ok\<lparr>z_auto_align_iterations := 0\<rparr>"

definition a_bad_T :: g34_args where
  "a_bad_T = a_ok\<lparr>z_auto_align_accuracy := 1.5\<rparr>"

definition a_bad_A :: g34_args where
  "a_bad_A = a_ok\<lparr>z_auto_align_amplification := 0.4\<rparr>"

text \<open>
  Surroundings: in \<open>env_level\<close> the bed is 1 mm off at stepper 2 in the first iteration
  and level afterwards.
\<close>

definition heights_level :: "nat \<Rightarrow> nat \<Rightarrow> real option" where
  "heights_level k z = (if k = 0 \<and> z = 1 then Some 1 else Some 0)"

definition z_five :: "nat \<Rightarrow> nat \<Rightarrow> real" where
  "z_five k z = 5"

definition env_level :: env where
  "env_level = \<lparr>probed_height = heights_level, z_after_probe = z_five, z_after_homing = 0\<rparr>"

text \<open>A probe that never gives a reading, and a bed that gets worse at stepper 2.\<close>

definition heights_fault :: "nat \<Rightarrow> nat \<Rightarrow> real option" where
  "heights_fault k z = None"

definition env_fault :: env where
  "env_fault = \<lparr>probed_height = heights_fault, z_after_probe = z_five, z_after_homing = 0\<rparr>"

definition heights_worse :: "nat \<Rightarrow> nat \<Rightarrow> real option" where
  "heights_worse k z = (if z = 0 then Some 0 else if k = 0 then Some 1 else Some 3)"

definition env_worse :: env where
  "env_worse = \<lparr>probed_height = heights_worse, z_after_probe = z_five, z_after_homing = 0\<rparr>"

text \<open>A level bed, and the same machine configured without \<open>RESTORE_LEVELING_AFTER_G34\<close>.\<close>

definition heights_flat :: "nat \<Rightarrow> nat \<Rightarrow> real option" where
  "heights_flat k z = Some 0"

definition env_flat :: env where
  "env_flat = \<lparr>probed_height = heights_flat, z_after_probe = z_five, z_after_homing = 0\<rparr>"

definition cfg2_no_restore :: config where
  "cfg2_no_restore = cfg2\<lparr>RESTORE_LEVELING_AFTER_G34 := False\<rparr>"

subsection \<open>Settings that the loops leave alone\<close>

definition same_settings :: "'a machine_scheme \<Rightarrow> 'b machine_scheme \<Rightarrow> bool" where
  "same_settings s t =
     (z_auto_align_pos t = z_auto_align_pos s \<and> leveling_active t = leveling_active s
      \<and> active_extruder t = active_extruder s)"

subsection \<open>Events emitted between two states\<close>

definition since :: "'a machine_scheme \<Rightarrow> 'b machine_scheme \<Rightarrow> event list" where
  "since s t = drop (length (out s)) (out t)"

definition grows :: "'a machine_scheme \<Rightarrow> 'b machine_scheme \<Rightarrow> bool" where
  "grows s t = (out t = out s @ since s t)"

definition probe_events :: "config \<Rightarrow> g34_args \<Rightarrow> nat \<Rightarrow> xy_pos_t list \<Rightarrow> real \<Rightarrow> nat \<Rightarrow> event list" where
  "probe_events cfg a iter pos zp j =
     (if iter = 0 \<or> 0 < j then [MoveToZ zp] else [])
     @ [ProbeAtPoint (pos ! zstepper_of cfg iter j) (raise_after a)]"

definition probe_inv :: "config \<Rightarrow> g34_args \<Rightarrow> nat \<Rightarrow> frame \<Rightarrow> nat \<Rightarrow> frame \<Rightarrow> bool" where
  "probe_inv cfg a iter s j t =
     (grows s t
      \<and> since s t = concat (map (probe_events cfg a iter (z_auto_align_pos s) (z_probe s)) [0..<j])
      \<and> z_probe t = z_probe s \<and> z_auto_align_pos t = z_auto_align_pos s
      \<and> err_break t = err_break s)"

subsection \<open>Orders, positions and kinds of events\<close>

definition probe_order :: "config \<Rightarrow> nat \<Rightarrow> nat list" where
  "probe_order cfg iter = map (zstepper_of cfg iter) [0..<Z_STEPPER_COUNT cfg]"

fun probed_positions :: "event list \<Rightarrow> xy_pos_t list" where
  "probed_positions [] = []"
| "probed_positions (ProbeAtPoint p r # es) = p # probed_positions es"
| "probed_positions (e # es) = probed_positions es"

definition ITERATION :: "nat \<Rightarrow> event" where
  "ITERATION iter = EchoInt (CHR 0x0A # ''ITERATION: '') (int (iter + 1))"

fun is_probe :: "event \<Rightarrow> bool" where
  "is_probe (ProbeAtPoint p r) = True"
| "is_probe e = False"

fun is_move :: "event \<Rightarrow> bool" where
  "is_move (MoveToZ z) = True"
| "is_move e = False"

definition lock_events :: "config \<Rightarrow> bool \<Rightarrow> event list" where
  "lock_events cfg b =
     [ZLock 0 b, ZLock 1 b] @ (if Z_TRIPLE_STEPPER_DRIVERS cfg then [ZLock 2 b] else [])"

definition unlock_events :: "config \<Rightarrow> nat \<Rightarrow> event list" where
  "unlock_events cfg z =
     (if z = 0 then [ZLock 0 False] else if z = 1 then [ZLock 1 False]
      else if z = 2 \<and> Z_TRIPLE_STEPPER_DRIVERS cfg then [ZLock 2 False] else [])"

text \<open>
  The events that tell how a run went: the announcement of an iteration and the three
  messages that end the iteration loop early.
\<close>

fun notable :: "event \<Rightarrow> bool" where
  "notable (EchoInt x n) = (x = CHR 0x0A # ''ITERATION: '')"
| "notable (Echo x) =
     (x = ''Probing failed.'' \<or> x = ''Decreasing accuracy detected.''
      \<or> x = ''Target accuracy achieved.'')"
| "notable e = False"


subsection \<open>Z locks: the state replayed from a trace, and the discipline of motion\<close>

type_synonym locks = "bool \<times> bool \<times> bool \<times> bool"

definition locks_of :: "'a machine_scheme \<Rightarrow> locks" where
  "locks_of s = (locked_Z_motor s, locked_Z2_motor s, locked_Z3_motor s, separate_multi_axis s)"










definition one_unlocked :: "config \<Rightarrow> nat \<Rightarrow> locks" where
  "one_unlocked cfg z = (z \<noteq> 0, z \<noteq> 1, Z_TRIPLE_STEPPER_DRIVERS cfg \<and> z \<noteq> 2, True)"

definition correcting :: "config \<Rightarrow> locks \<Rightarrow> bool" where
  "correcting cfg q = (case q of (l1, l2, l3, sp) \<Rightarrow> sp \<and> (Z_TRIPLE_STEPPER_DRIVERS cfg \<or> \<not> l3))"

subsection \<open>A bed that is far off at stepper 2\<close>



subsection \<open>Measurements, and the outcome of a run as the trace announces it\<close>













fun announces :: "event \<Rightarrow> bool" where
  "announces (EchoInt x n) = (x = CHR 0x0A # ''ITERATION: '')"
| "announces e = False"




section \<open>Properties\<close>

lemmas prim_defs = emit_def planner_synchronize_def set_bed_leveling_enabled_def
  tool_change_def home_all_axes_def do_blocking_move_to_z_def probe_at_point_def
  set_separate_multi_axis_def set_z_lock_def set_z2_lock_def set_z3_lock_def
  set_axis_is_not_at_home_Z_def STOW_PROBE_def process_subcommands_now_def
  set_all_z_lock_def unlock_one_def

lemmas body_defs = probe_point_def store_measurement_def update_clearance_def
  z_align_move_def z_align_abs_def tune_amplification_def decreasing_accuracy_def
  apply_correction_def iteration_body_def probe_all_def correct_all_def zstepper_of_def

lemmas run_defs = G34_def G34_prepare_def G34_restore_def initial_z_probe_def HYPOT_def
  HYPOT2_def Z_BASIC_CLEARANCE_def Z_STEPPER_COUNT_def WITHIN_def
  machine.truncate_def machine.extend_def Let_def

lemmas concrete_defs = cfg2_def m0_def a_ok_def a_bad_I_def a_bad_T_def a_bad_A_def
  heights_level_def z_five_def env_level_def heights_fault_def env_fault_def
  heights_worse_def env_worse_def heights_flat_def env_flat_def cfg2_no_restore_def

subsection \<open>Unfolding the loops once, and invariant rules for them\<close>

lemma int8_small: "- 128 \<le> k \<Longrightarrow> k < 128 \<Longrightarrow> sint (word_of_int k :: 8 word) = k"
  by (simp add: sint_sbintrunc' signed_take_bit_int_eq_self)

lemma probe_loop_done:
  "\<not> izstepper < Z_STEPPER_COUNT cfg \<Longrightarrow> probe_loop cfg env a iter izstepper s = s"
  by (subst probe_loop.simps) simp

lemma probe_loop_fail:
  "izstepper < Z_STEPPER_COUNT cfg \<Longrightarrow>
   probed_height env iter (zstepper_of cfg iter izstepper) = None \<Longrightarrow>
   probe_loop cfg env a iter izstepper s =
     (emit (Echo ''Probing failed.'') (probe_point cfg env a iter izstepper s))\<lparr>err_break := True\<rparr>"
  by (subst probe_loop.simps) simp

lemma probe_loop_step:
  "izstepper < Z_STEPPER_COUNT cfg \<Longrightarrow>
   probed_height env iter (zstepper_of cfg iter izstepper) = Some h \<Longrightarrow>
   probe_loop cfg env a iter izstepper s =
     probe_loop cfg env a iter (Suc izstepper)
       (store_measurement cfg (zstepper_of cfg iter izstepper) h
          (probe_point cfg env a iter izstepper s))"
  by (subst probe_loop.simps) simp

lemma correct_loop_done:
  "\<not> zstepper < Z_STEPPER_COUNT cfg \<Longrightarrow> correct_loop cfg a iter zstepper s = s"
  by (subst correct_loop.simps) simp

lemma correct_loop_fail:
  "zstepper < Z_STEPPER_COUNT cfg \<Longrightarrow>
   decreasing_accuracy zstepper (tune_amplification a iter zstepper s) \<Longrightarrow>
   correct_loop cfg a iter zstepper s =
     (emit (Echo ''Decreasing accuracy detected.'')
        (tune_amplification a iter zstepper s))\<lparr>err_break := True\<rparr>"
  by (subst correct_loop.simps) simp

lemma correct_loop_step:
  "zstepper < Z_STEPPER_COUNT cfg \<Longrightarrow>
   \<not> decreasing_accuracy zstepper (tune_amplification a iter zstepper s) \<Longrightarrow>
   correct_loop cfg a iter zstepper s =
     correct_loop cfg a iter (Suc zstepper)
       (apply_correction cfg a zstepper (tune_amplification a iter zstepper s))"
  by (subst correct_loop.simps) simp

lemma iteration_loop_done:
  "\<not> int iter < sint (z_auto_align_iterations a) \<Longrightarrow>
   iteration_loop cfg env a iter s = s\<lparr>iteration := iter\<rparr>"
  by (subst iteration_loop.simps) simp

lemma iteration_loop_err:
  "int iter < sint (z_auto_align_iterations a) \<Longrightarrow>
   err_break (iteration_body cfg env a iter s) \<Longrightarrow>
   iteration_loop cfg env a iter s = (iteration_body cfg env a iter s)\<lparr>iteration := iter\<rparr>"
  by (subst iteration_loop.simps) simp

lemma iteration_loop_success:
  "int iter < sint (z_auto_align_iterations a) \<Longrightarrow>
   \<not> err_break (iteration_body cfg env a iter s) \<Longrightarrow>
   success_break (iteration_body cfg env a iter s) \<Longrightarrow>
   iteration_loop cfg env a iter s =
     (emit (Echo ''Target accuracy achieved.'') (iteration_body cfg env a iter s))\<lparr>iteration := iter\<rparr>"
  by (subst iteration_loop.simps) simp

lemma iteration_loop_step:
  "int iter < sint (z_auto_align_iterations a) \<Longrightarrow>
   \<not> err_break (iteration_body cfg env a iter s) \<Longrightarrow>
   \<not> success_break (iteration_body cfg env a iter s) \<Longrightarrow>
   iteration_loop cfg env a iter s =
     iteration_loop cfg env a (Suc iter) (iteration_body cfg env a iter s)"
  by (subst iteration_loop.simps) simp

lemma probe_loop_rule:
  assumes init: "I izstepper s"
    and step: "\<And>iz s h. iz < Z_STEPPER_COUNT cfg \<Longrightarrow> I iz s \<Longrightarrow>
           probed_height env iter (zstepper_of cfg iter iz) = Some h \<Longrightarrow>
           I (Suc iz) (store_measurement cfg (zstepper_of cfg iter iz) h
                        (probe_point cfg env a iter iz s))"
    and fail: "\<And>iz s. iz < Z_STEPPER_COUNT cfg \<Longrightarrow> I iz s \<Longrightarrow>
           probed_height env iter (zstepper_of cfg iter iz) = None \<Longrightarrow>
           Q ((emit (Echo ''Probing failed.'') (probe_point cfg env a iter iz s))\<lparr>err_break := True\<rparr>)"
    and fin: "\<And>iz s. \<not> iz < Z_STEPPER_COUNT cfg \<Longrightarrow> I iz s \<Longrightarrow> Q s"
  shows "Q (probe_loop cfg env a iter izstepper s)"
  using init
proof (induction "Z_STEPPER_COUNT cfg - izstepper" arbitrary: izstepper s)
  case 0
  then show ?case using fin [of izstepper s] by (simp add: probe_loop_done)
next
  case (Suc n)
  then have lt: "izstepper < Z_STEPPER_COUNT cfg" by simp
  show ?case
  proof (cases "probed_height env iter (zstepper_of cfg iter izstepper)")
    case None
    then show ?thesis using lt Suc.prems fail [of izstepper s] by (simp add: probe_loop_fail)
  next
    case (Some h)
    have "Q (probe_loop cfg env a iter (Suc izstepper)
          (store_measurement cfg (zstepper_of cfg iter izstepper) h
                        (probe_point cfg env a iter izstepper s)))"
      using Suc.hyps(2) lt by (intro Suc.hyps(1) step [OF lt Suc.prems Some]) simp
    then show ?thesis using lt Some by (simp add: probe_loop_step)
  qed
qed

lemma correct_loop_rule:
  assumes init: "I zstepper s"
    and step: "\<And>z s. z < Z_STEPPER_COUNT cfg \<Longrightarrow> I z s \<Longrightarrow>
           \<not> decreasing_accuracy z (tune_amplification a iter z s) \<Longrightarrow>
           I (Suc z) (apply_correction cfg a z (tune_amplification a iter z s))"
    and fail: "\<And>z s. z < Z_STEPPER_COUNT cfg \<Longrightarrow> I z s \<Longrightarrow>
           decreasing_accuracy z (tune_amplification a iter z s) \<Longrightarrow>
           Q ((emit (Echo ''Decreasing accuracy detected.'') (tune_amplification a iter z s))\<lparr>err_break := True\<rparr>)"
    and fin: "\<And>z s. \<not> z < Z_STEPPER_COUNT cfg \<Longrightarrow> I z s \<Longrightarrow> Q s"
  shows "Q (correct_loop cfg a iter zstepper s)"
  using init
proof (induction "Z_STEPPER_COUNT cfg - zstepper" arbitrary: zstepper s)
  case 0
  then show ?case using fin [of zstepper s] by (simp add: correct_loop_done)
next
  case (Suc n)
  then have lt: "zstepper < Z_STEPPER_COUNT cfg" by simp
  show ?case
  proof (cases "decreasing_accuracy zstepper (tune_amplification a iter zstepper s)")
    case True
    then show ?thesis using lt Suc.prems fail [of zstepper s] by (simp add: correct_loop_fail)
  next
    case False
    have "Q (correct_loop cfg a iter (Suc zstepper)
          (apply_correction cfg a zstepper (tune_amplification a iter zstepper s)))"
      using Suc.hyps(2) lt by (intro Suc.hyps(1) step [OF lt Suc.prems False]) simp
    then show ?thesis using lt False by (simp add: correct_loop_step)
  qed
qed

lemma iteration_loop_rule:
  assumes init: "I iter s"
    and step: "\<And>k s. int k < sint (z_auto_align_iterations a) \<Longrightarrow> I k s \<Longrightarrow>
           \<not> err_break (iteration_body cfg env a k s) \<Longrightarrow>
           \<not> success_break (iteration_body cfg env a k s) \<Longrightarrow>
           I (Suc k) (iteration_body cfg env a k s)"
    and fail: "\<And>k s. int k < sint (z_auto_align_iterations a) \<Longrightarrow> I k s \<Longrightarrow>
           err_break (iteration_body cfg env a k s) \<Longrightarrow>
           Q ((iteration_body cfg env a k s)\<lparr>iteration := k\<rparr>)"
    and conv: "\<And>k s. int k < sint (z_auto_align_iterations a) \<Longrightarrow> I k s \<Longrightarrow>
           \<not> err_break (iteration_body cfg env a k s) \<Longrightarrow>
           success_break (iteration_body cfg env a k s) \<Longrightarrow>
           Q ((emit (Echo ''Target accuracy achieved.'') (iteration_body cfg env a k s))\<lparr>iteration := k\<rparr>)"
    and fin: "\<And>k s. \<not> int k < sint (z_auto_align_iterations a) \<Longrightarrow> I k s \<Longrightarrow> Q (s\<lparr>iteration := k\<rparr>)"
  shows "Q (iteration_loop cfg env a iter s)"
  using init
proof (induction "nat (sint (z_auto_align_iterations a)) - iter" arbitrary: iter s)
  case 0
  then have "\<not> int iter < sint (z_auto_align_iterations a)" by simp
  then show ?case using fin [of iter s] 0 by (simp add: iteration_loop_done)
next
  case (Suc n)
  then have lt: "int iter < sint (z_auto_align_iterations a)" by linarith
  let ?b = "iteration_body cfg env a iter s"
  consider (err) "err_break ?b" | (succ) "\<not> err_break ?b" "success_break ?b"
    | (cont) "\<not> err_break ?b" "\<not> success_break ?b" by blast
  then show ?case
  proof cases
    case err
    then show ?thesis using lt Suc.prems fail [of iter s] by (simp add: iteration_loop_err)
  next
    case succ
    then show ?thesis using lt Suc.prems conv [of iter s] by (simp add: iteration_loop_success)
  next
    case cont
    have "Q (iteration_loop cfg env a (Suc iter) ?b)"
      using Suc.hyps(2) lt by (intro Suc.hyps(1) step [OF lt Suc.prems cont]) linarith
    then show ?thesis using lt cont by (simp add: iteration_loop_step)
  qed
qed

subsection \<open>Parameter validation\<close>



subsection \<open>The loops do not touch probe positions, levelling state or tool\<close>

lemma same_settings_trans: "same_settings s t \<Longrightarrow> same_settings t u \<Longrightarrow> same_settings s u"
  by (simp add: same_settings_def)

lemma settings_of_calls:
  "z_auto_align_pos (set_all_z_lock cfg b s) = z_auto_align_pos s"
  "leveling_active (set_all_z_lock cfg b s) = leveling_active s"
  "active_extruder (set_all_z_lock cfg b s) = active_extruder s"
  "z_auto_align_pos (unlock_one cfg z s) = z_auto_align_pos s"
  "leveling_active (unlock_one cfg z s) = leveling_active s"
  "active_extruder (unlock_one cfg z s) = active_extruder s"
  "z_auto_align_pos (do_blocking_move_to_z x s) = z_auto_align_pos s"
  "leveling_active (do_blocking_move_to_z x s) = leveling_active s"
  "active_extruder (do_blocking_move_to_z x s) = active_extruder s"
  "z_auto_align_pos (probe_at_point env k j p r s) = z_auto_align_pos s"
  "leveling_active (probe_at_point env k j p r s) = leveling_active s"
  "active_extruder (probe_at_point env k j p r s) = active_extruder s"
  by (simp_all add: prim_defs Let_def)

lemma apply_correction_settings: "same_settings s (apply_correction cfg a z s)"
  by (simp add: same_settings_def apply_correction_def Let_def settings_of_calls)

lemma tune_amplification_settings: "same_settings s (tune_amplification a iter z s)"
  by (simp add: same_settings_def tune_amplification_def)

lemma probe_point_settings: "same_settings s (probe_point cfg env a iter j s)"
  by (simp add: same_settings_def probe_point_def Let_def settings_of_calls)

lemma store_measurement_settings: "same_settings s (store_measurement cfg z h s)"
  by (simp add: same_settings_def store_measurement_def Let_def)

lemma probe_loop_settings: "same_settings s (probe_loop cfg env a iter iz s)"
proof (rule probe_loop_rule [where I = "\<lambda>_. same_settings s"])
  show "same_settings s s" by (simp add: same_settings_def)
next
  fix j h and t :: frame
  assume t: "same_settings s t"
  then show "same_settings s (store_measurement cfg (zstepper_of cfg iter j) h
      (probe_point cfg env a iter j t))"
    by (rule same_settings_trans
          [OF same_settings_trans [OF _ probe_point_settings] store_measurement_settings])
  show "same_settings s
      ((emit (Echo ''Probing failed.'') (probe_point cfg env a iter j t))\<lparr>err_break := True\<rparr>)"
    using t probe_point_settings [of t cfg env a iter j] by (simp add: same_settings_def emit_def)
qed

lemma correct_loop_settings: "same_settings s (correct_loop cfg a iter z s)"
proof (rule correct_loop_rule [where I = "\<lambda>_. same_settings s"])
  show "same_settings s s" by (simp add: same_settings_def)
next
  fix z and t :: frame
  assume t: "same_settings s t"
  then show "same_settings s (apply_correction cfg a z (tune_amplification a iter z t))"
    by (rule same_settings_trans
          [OF same_settings_trans [OF _ tune_amplification_settings] apply_correction_settings])
  show "same_settings s ((emit (Echo ''Decreasing accuracy detected.'')
      (tune_amplification a iter z t))\<lparr>err_break := True\<rparr>)"
    using t tune_amplification_settings [of t a iter z] by (simp add: same_settings_def emit_def)
qed

lemma probe_all_settings: "same_settings s (probe_all cfg env a iter s)"
proof -
  have "same_settings s ((emit e s)\<lparr>z_measured_min := x\<rparr>)" for e x
    by (simp add: same_settings_def emit_def)
  then show ?thesis
    unfolding probe_all_def Let_def using probe_loop_settings same_settings_trans by blast
qed

lemma correct_all_settings: "same_settings s (correct_all cfg a iter s)"
proof -
  let ?s3 = "(set_separate_multi_axis True (update_clearance cfg s))\<lparr>success_break := True\<rparr>"
  have 1: "same_settings s ?s3"
    by (simp add: same_settings_def update_clearance_def prim_defs Let_def)
  have 2: "same_settings t (set_separate_multi_axis False (set_all_z_lock cfg False t))" for t :: frame
    by (simp add: same_settings_def prim_defs Let_def)
  have "same_settings s (set_separate_multi_axis False (set_all_z_lock cfg False (correct_loop cfg a iter 0 ?s3)))"
    using 1 2 correct_loop_settings same_settings_trans by blast
  then show ?thesis by (simp add: correct_all_def Let_def)
qed

lemma iteration_body_settings: "same_settings s (iteration_body cfg env a iter s)"
  unfolding iteration_body_def Let_def
  using probe_all_settings correct_all_settings same_settings_trans
  by (metis (full_types))

lemma iteration_loop_settings: "same_settings s (iteration_loop cfg env a iter s)"
proof (rule iteration_loop_rule [where I = "\<lambda>_. same_settings s"])
  show "same_settings s s" by (simp add: same_settings_def)
next
  fix k and t :: frame assume "same_settings s t"
  then have *: "same_settings s (iteration_body cfg env a k t)"
    using iteration_body_settings same_settings_trans by blast
  show "same_settings s (iteration_body cfg env a k t)" by (rule *)
  show "same_settings s ((iteration_body cfg env a k t)\<lparr>iteration := k\<rparr>)"
    using * by (simp add: same_settings_def)
  show "same_settings s ((emit (Echo ''Target accuracy achieved.'') (iteration_body cfg env a k t))\<lparr>iteration := k\<rparr>)"
    using * by (simp add: same_settings_def emit_def)
next
  fix k and t :: frame assume "same_settings s t"
  then show "same_settings s (t\<lparr>iteration := k\<rparr>)" by (simp add: same_settings_def)
qed

lemma G34_prepare_settings:
  "z_auto_align_pos (G34_prepare cfg env a m) = z_auto_align_pos m"
  "leveling_active (G34_prepare cfg env a m) = (if HAS_LEVELING cfg then False else leveling_active m)"
  "active_extruder (G34_prepare cfg env a m) = (if HOTENDS cfg > 1 then 0 else active_extruder m)"
  by (simp_all add: G34_prepare_def prim_defs Let_def machine.extend_def)

subsection \<open>Post-run restoration\<close>

text \<open>
  C1 (as amended). A run of G34 that gets past the parameter checks and leaves the
  iteration loop without \<open>err_break\<close> (target accuracy achieved, or all iterations
  used) ends with the restoration of lines 271 to 294: after the report it changes
  back to the tool that was active before (when there is more than one hotend),
  re-enables bed levelling as it was (when levelling exists and
  \<open>RESTORE_LEVELING_AFTER_G34\<close> is configured; without that option levelling stays
  off), marks Z as not homed, stows the probe and homes Z, in this order and as its
  last actions.
\<close>

theorem G34_restoration:
  assumes "WITHIN (sint (z_auto_align_iterations a)) 1 30"
    and "WITHIN (z_auto_align_accuracy a) 0.01 1.0"
    and "WITHIN \<bar>z_auto_align_amplification a\<bar> 0.5 2.0"
    and "\<not> err_break (iteration_loop cfg env a 0 (G34_prepare cfg env a m))"
  shows "out (G34 cfg env a m) =
           out (iteration_loop cfg env a 0 (G34_prepare cfg env a m))
           @ [EchoInt ''Did ''
                (int (iteration (iteration_loop cfg env a 0 (G34_prepare cfg env a m)))
                 + (if int (iteration (iteration_loop cfg env a 0 (G34_prepare cfg env a m)))
                       \<noteq> sint (z_auto_align_iterations a) then 1 else 0)),
              EchoInt '' iterations of '' (sint (z_auto_align_iterations a)),
              EchoReal ''Accuracy: '' (z_maxdiff (iteration_loop cfg env a 0 (G34_prepare cfg env a m))),
              EchoEOL]
           @ (if HOTENDS cfg > 1 then [ToolChange (active_extruder m) (\<not> PARKING_EXTRUDER cfg)] else [])
           @ (if HAS_LEVELING cfg \<and> RESTORE_LEVELING_AFTER_G34 cfg
              then [BedLeveling (leveling_active m)] else [])
           @ [AxisNotAtHomeZ, StowProbe, Subcommands ''G28 Z'']
         \<and> active_extruder (G34 cfg env a m) = active_extruder m
         \<and> leveling_active (G34 cfg env a m) =
             (if HAS_LEVELING cfg \<and> \<not> RESTORE_LEVELING_AFTER_G34 cfg then False
              else leveling_active m)"
proof -
  let ?s = "iteration_loop cfg env a 0 (G34_prepare cfg env a m)"
  have "same_settings (G34_prepare cfg env a m) ?s" by (rule iteration_loop_settings)
  then have s: "active_extruder ?s = (if HOTENDS cfg > 1 then 0 else active_extruder m)"
    "leveling_active ?s = (if HAS_LEVELING cfg then False else leveling_active m)"
    by (simp_all add: same_settings_def G34_prepare_settings)
  have G: "G34 cfg env a m = machine.truncate (G34_restore cfg a (leveling_active m) (active_extruder m) ?s)"
    using assms by (simp add: G34_def)
  show ?thesis
    unfolding G using s
    by (simp add: G34_restore_def prim_defs Let_def machine.truncate_def)
qed

lemmas eval_defs = run_defs concrete_defs prim_defs body_defs
  iteration_loop.simps probe_loop.simps correct_loop.simps

theorem G34_restoration_witness:
  "WITHIN (sint (z_auto_align_iterations a_ok)) 1 30
   \<and> WITHIN (z_auto_align_accuracy a_ok) 0.01 1.0
   \<and> WITHIN \<bar>z_auto_align_amplification a_ok\<bar> 0.5 2.0
   \<and> \<not> err_break (iteration_loop cfg2 env_flat a_ok 0 (G34_prepare cfg2 env_flat a_ok m0))
   \<and> out (G34 cfg2 env_flat a_ok m0) =
       out (iteration_loop cfg2 env_flat a_ok 0 (G34_prepare cfg2 env_flat a_ok m0))
       @ [EchoInt ''Did '' 1, EchoInt '' iterations of '' 3, EchoReal ''Accuracy: '' 0, EchoEOL,
          ToolChange 1 True, BedLeveling True, AxisNotAtHomeZ, StowProbe, Subcommands ''G28 Z'']
   \<and> active_extruder (G34 cfg2 env_flat a_ok m0) = 1
   \<and> leveling_active (G34 cfg2 env_flat a_ok m0)"
proof -
  let ?L = "iteration_loop cfg2 env_flat a_ok 0 (G34_prepare cfg2 env_flat a_ok m0)"
  have v: "WITHIN (sint (z_auto_align_iterations a_ok)) 1 30"
    "WITHIN (z_auto_align_accuracy a_ok) 0.01 1.0"
    "WITHIN \<bar>z_auto_align_amplification a_ok\<bar> 0.5 2.0"
    by (simp_all add: WITHIN_def a_ok_def)
  have e: "\<not> err_break ?L"
    by (simp add: eval_defs)
  have i: "iteration ?L = 0 \<and> z_maxdiff ?L = 0"
    by (simp add: eval_defs)
  show ?thesis
    using G34_restoration [OF v e] v e
    by (simp add: i) (simp add: cfg2_def m0_def a_ok_def)
qed

text \<open>
  The claim as stated fails on the two abort paths: after a failed probe and after
  ``Decreasing accuracy detected'' line 265 leaves the do-while, so the run ends with
  ``G34 aborted.'', tool 0 stays selected and levelling stays off, the probe is not
  stowed and Z is not homed. It also fails, on a successful run, for the levelling
  state of a machine built without \<open>RESTORE_LEVELING_AFTER_G34\<close>.
\<close>

theorem G34_abort_skips_restoration:
  "active_extruder m0 = 1 \<and> leveling_active m0
   \<and> out (G34 cfg2 env_fault a_ok m0) =
       [Synchronize, BedLeveling False, ToolChange 0 True,
        EchoInt (CHR 0x0A # ''ITERATION: '') 1, MoveToZ 5,
        ProbeAtPoint (10, 10) PROBE_PT_RAISE, Echo ''Probing failed.'', Echo ''G34 aborted.'']
   \<and> active_extruder (G34 cfg2 env_fault a_ok m0) = 0
   \<and> \<not> leveling_active (G34 cfg2 env_fault a_ok m0)
   \<and> drop 34 (out (G34 cfg2 env_worse a_ok m0)) =
       [MoveToZ 5, Echo ''Decreasing accuracy detected.'', ZLock 0 False, ZLock 1 False,
        SeparateMultiAxis False, Echo ''G34 aborted.'']
   \<and> active_extruder (G34 cfg2 env_worse a_ok m0) = 0
   \<and> \<not> leveling_active (G34 cfg2 env_worse a_ok m0)
   \<and> \<not> leveling_active (G34 cfg2_no_restore env_flat a_ok m0)"
  by (simp add: eval_defs)

subsection \<open>M422: setting a probe position\<close>

lemma G34_z_auto_align_pos: "z_auto_align_pos (G34 cfg env a m) = z_auto_align_pos m"
proof -
  let ?s = "iteration_loop cfg env a 0 (G34_prepare cfg env a m)"
  have "same_settings (G34_prepare cfg env a m) ?s" by (rule iteration_loop_settings)
  then have s: "z_auto_align_pos ?s = z_auto_align_pos m"
    by (simp add: same_settings_def G34_prepare_settings)
  have 1: "z_auto_align_pos (machine.truncate (emit e ?s)) = z_auto_align_pos m" for e
    using s by (simp add: machine.truncate_def emit_def)
  have 2: "z_auto_align_pos (machine.truncate (G34_restore cfg a l t ?s)) = z_auto_align_pos m" for l t
    using s by (simp add: G34_restore_def prim_defs Let_def machine.truncate_def)
  show ?thesis
    unfolding G34_def Let_def using 1 2 by (simp add: emit_def)
qed

lemma M422_zstepper:
  "1 \<le> S \<Longrightarrow> S \<le> int (Z_STEPPER_COUNT cfg) \<Longrightarrow>
   sint (word_of_int (S - 1) :: 8 word) = S - 1"
  by (rule int8_small) (simp_all add: Z_STEPPER_COUNT_def split: if_splits)

text \<open>
  C10. For a valid stepper number \<open>S\<close> (1 to \<open>Z_STEPPER_COUNT\<close>, the actuator id is
  \<open>S - 1\<close>) and coordinates within the travel limits, M422 stores exactly \<open>(x, y)\<close>
  for that stepper and prints nothing; the entry is still \<open>(x, y)\<close> after any
  run of G34. When \<open>x\<close> or \<open>y\<close> is out of bounds, M422 only prints the message for
  the offending coordinate and the machine, with all stored positions, is as before.
\<close>

theorem M422_set_then_read:
  assumes "length (z_auto_align_pos m) = Z_STEPPER_COUNT cfg"
    and "1 \<le> S" and "S \<le> int (Z_STEPPER_COUNT cfg)"
  shows "(if WITHIN x (X_MIN_POS cfg) (X_MAX_POS cfg) \<and> WITHIN y (Y_MIN_POS cfg) (Y_MAX_POS cfg)
          then z_auto_align_pos (M422 cfg S (Some x) (Some y) m) ! nat (S - 1) = (x, y)
             \<and> z_auto_align_pos (G34 cfg env a (M422 cfg S (Some x) (Some y) m)) ! nat (S - 1) = (x, y)
             \<and> out (M422 cfg S (Some x) (Some y) m) = out m
          else M422 cfg S (Some x) (Some y) m =
                 m\<lparr>out := out m @
                    [Echo (if \<not> WITHIN x (X_MIN_POS cfg) (X_MAX_POS cfg)
                           then ''?(X) out of bounds.'' else ''?(Y) out of bounds.'')]\<rparr>)"
proof -
  have z: "sint (word_of_int (S - 1) :: 8 word) = S - 1"
    using assms(2,3) by (rule M422_zstepper)
  have w: "WITHIN (S - 1) 0 (int (Z_STEPPER_COUNT cfg) - 1)"
    using assms by (simp add: WITHIN_def)
  have n: "nat (S - 1) < length (z_auto_align_pos m)"
    using assms by simp
  show ?thesis
    unfolding M422_def z using w n by (simp add: G34_z_auto_align_pos emit_def Let_def)
qed

theorem M422_set_then_read_witness:
  "length (z_auto_align_pos m0) = Z_STEPPER_COUNT cfg2
   \<and> z_auto_align_pos (M422 cfg2 2 (Some 20) (Some 30) m0) ! 1 = (20, 30)
   \<and> z_auto_align_pos (G34 cfg2 env_flat a_ok (M422 cfg2 2 (Some 20) (Some 30) m0)) ! 1 = (20, 30)
   \<and> out (M422 cfg2 2 (Some 20) (Some 30) m0) = out m0
   \<and> M422 cfg2 2 (Some 300) (Some 30) m0 = m0\<lparr>out := out m0 @ [Echo ''?(X) out of bounds.'']\<rparr>
   \<and> M422 cfg2 2 (Some 20) (Some (- 1)) m0 = m0\<lparr>out := out m0 @ [Echo ''?(Y) out of bounds.'']\<rparr>"
  using M422_set_then_read [of m0 cfg2 2 20 30 env_flat a_ok]
    M422_set_then_read [of m0 cfg2 2 300 30 env_flat a_ok]
    M422_set_then_read [of m0 cfg2 2 20 "- 1" env_flat a_ok]
  by (simp add: WITHIN_def Z_STEPPER_COUNT_def cfg2_def m0_def)

subsection \<open>The trace of the probing loop\<close>

lemma grows_refl [simp]: "grows s s" "since s s = []"
  by (simp_all add: grows_def since_def)

lemma grows_app:
  assumes "grows s t" and "out u = out t @ es"
  shows "grows s u \<and> since s u = since s t @ es"
proof -
  have "length (out s) \<le> length (out t)"
    using assms(1) by (metis grows_def le_add1 length_append)
  then show ?thesis
    using assms by (simp add: grows_def since_def)
qed

lemma grows_trans:
  "grows s t \<Longrightarrow> grows t u \<Longrightarrow> grows s u \<and> since s u = since s t @ since t u"
  by (metis grows_app grows_def)


lemma out_probe_point:
  "out (probe_point cfg env a iter j s) =
     out s @ probe_events cfg a iter (z_auto_align_pos s) (z_probe s) j"
  by (simp add: probe_point_def probe_events_def prim_defs Let_def)

lemma probe_point_fields:
  "z_probe (probe_point cfg env a iter j s) = z_probe s"
  "z_auto_align_pos (probe_point cfg env a iter j s) = z_auto_align_pos s"
  "err_break (probe_point cfg env a iter j s) = err_break s"
  by (simp_all add: probe_point_def prim_defs Let_def)

lemma store_measurement_fields:
  "out (store_measurement cfg z h s) = out s"
  "z_probe (store_measurement cfg z h s) = z_probe s"
  "z_auto_align_pos (store_measurement cfg z h s) = z_auto_align_pos s"
  "err_break (store_measurement cfg z h s) = err_break s"
  by (simp_all add: store_measurement_def Let_def)

lemma probe_inv_step:
  assumes "probe_inv cfg a iter s j t"
  shows "probe_inv cfg a iter s (Suc j)
           (store_measurement cfg z h (probe_point cfg env a iter j t))"
proof -
  let ?u = "store_measurement cfg z h (probe_point cfg env a iter j t)"
  have o: "out ?u = out t @ probe_events cfg a iter (z_auto_align_pos s) (z_probe s) j"
    using assms by (simp add: store_measurement_fields out_probe_point probe_inv_def)
  have g: "grows s t" using assms by (simp add: probe_inv_def)
  show ?thesis
    using grows_app [OF g o] assms
    by (simp add: probe_inv_def store_measurement_fields probe_point_fields)
qed

lemma probe_inv_fail:
  assumes "probe_inv cfg a iter s j t"
  shows "grows s ((emit (Echo ''Probing failed.'') (probe_point cfg env a iter j t))\<lparr>err_break := True\<rparr>)
    \<and> since s ((emit (Echo ''Probing failed.'') (probe_point cfg env a iter j t))\<lparr>err_break := True\<rparr>)
        = concat (map (probe_events cfg a iter (z_auto_align_pos s) (z_probe s)) [0..<Suc j])
          @ [Echo ''Probing failed.'']"
proof -
  let ?u = "(emit (Echo ''Probing failed.'') (probe_point cfg env a iter j t))\<lparr>err_break := True\<rparr>"
  have o: "out ?u = out t @ (probe_events cfg a iter (z_auto_align_pos s) (z_probe s) j @ [Echo ''Probing failed.''])"
    using assms by (simp add: emit_def out_probe_point probe_inv_def)
  have g: "grows s t" using assms by (simp add: probe_inv_def)
  show ?thesis
    using grows_app [OF g o] assms by (simp add: probe_inv_def)
qed

lemma probe_loop_trace_ok:
  assumes ok: "\<forall>j<Z_STEPPER_COUNT cfg. probed_height env iter (zstepper_of cfg iter j) \<noteq> None"
  shows "probe_inv cfg a iter s (Z_STEPPER_COUNT cfg) (probe_loop cfg env a iter 0 s)"
proof (rule probe_loop_rule [where I = "\<lambda>j t. j \<le> Z_STEPPER_COUNT cfg \<and> probe_inv cfg a iter s j t"])
  show "0 \<le> Z_STEPPER_COUNT cfg \<and> probe_inv cfg a iter s 0 s"
    by (simp add: probe_inv_def)
next
  fix iz and t :: frame and h
  assume "iz < Z_STEPPER_COUNT cfg" "iz \<le> Z_STEPPER_COUNT cfg \<and> probe_inv cfg a iter s iz t"
  then show "Suc iz \<le> Z_STEPPER_COUNT cfg \<and> probe_inv cfg a iter s (Suc iz)
       (store_measurement cfg (zstepper_of cfg iter iz) h (probe_point cfg env a iter iz t))"
    using probe_inv_step by simp
next
  fix iz and t :: frame
  assume "iz < Z_STEPPER_COUNT cfg" "probed_height env iter (zstepper_of cfg iter iz) = None"
  then show "probe_inv cfg a iter s (Z_STEPPER_COUNT cfg)
     ((emit (Echo ''Probing failed.'') (probe_point cfg env a iter iz t))\<lparr>err_break := True\<rparr>)"
    using ok by simp
next
  fix iz and t :: frame
  assume a: "\<not> iz < Z_STEPPER_COUNT cfg" "iz \<le> Z_STEPPER_COUNT cfg \<and> probe_inv cfg a iter s iz t"
  then have e: "iz = Z_STEPPER_COUNT cfg" by simp
  from a(2) have "probe_inv cfg a iter s iz t" by (rule conjunct2)
  then show "probe_inv cfg a iter s (Z_STEPPER_COUNT cfg) t"
    unfolding e .
qed

lemma probe_loop_trace_fault:
  assumes f: "f < Z_STEPPER_COUNT cfg" "probed_height env iter (zstepper_of cfg iter f) = None"
    and ok: "\<forall>j<f. probed_height env iter (zstepper_of cfg iter j) \<noteq> None"
  shows "grows s (probe_loop cfg env a iter 0 s)
    \<and> since s (probe_loop cfg env a iter 0 s)
        = concat (map (probe_events cfg a iter (z_auto_align_pos s) (z_probe s)) [0..<Suc f])
          @ [Echo ''Probing failed.'']
    \<and> err_break (probe_loop cfg env a iter 0 s)"
    (is "?Q (probe_loop cfg env a iter 0 s)")
proof (rule probe_loop_rule [where I = "\<lambda>j t. j \<le> f \<and> probe_inv cfg a iter s j t"])
  show "0 \<le> f \<and> probe_inv cfg a iter s 0 s"
    by (simp add: probe_inv_def)
next
  fix iz and t :: frame and h
  assume a: "iz \<le> f \<and> probe_inv cfg a iter s iz t"
    "probed_height env iter (zstepper_of cfg iter iz) = Some h"
  then have "iz \<noteq> f" using f(2) by auto
  then show "Suc iz \<le> f \<and> probe_inv cfg a iter s (Suc iz)
       (store_measurement cfg (zstepper_of cfg iter iz) h (probe_point cfg env a iter iz t))"
    using a probe_inv_step by simp
next
  fix iz and t :: frame
  assume a: "iz \<le> f \<and> probe_inv cfg a iter s iz t"
    "probed_height env iter (zstepper_of cfg iter iz) = None"
  then have "iz = f" using ok by (metis le_neq_implies_less)
  then show "?Q ((emit (Echo ''Probing failed.'') (probe_point cfg env a iter iz t))\<lparr>err_break := True\<rparr>)"
    using a probe_inv_fail [of cfg a iter s f t env] by simp
next
  fix iz and t :: frame
  assume "\<not> iz < Z_STEPPER_COUNT cfg" "iz \<le> f \<and> probe_inv cfg a iter s iz t"
  then show "?Q t" using f(1) by simp
qed

subsection \<open>Traces of the probing phase and of the correction loop\<close>

lemma grows_first: "out u = out s @ es \<Longrightarrow> grows s u \<and> since s u = es"
  by (simp add: grows_def since_def)

lemma probe_all_trace_ok:
  assumes ok: "\<forall>j<Z_STEPPER_COUNT cfg. probed_height env iter (zstepper_of cfg iter j) \<noteq> None"
  shows "grows s (probe_all cfg env a iter s)
    \<and> since s (probe_all cfg env a iter s)
        = ITERATION iter
          # concat (map (probe_events cfg a iter (z_auto_align_pos s) (z_probe s))
                      [0..<Z_STEPPER_COUNT cfg])
    \<and> err_break (probe_all cfg env a iter s) = err_break s"
proof -
  let ?s2 = "(emit (ITERATION iter) s)\<lparr>z_measured_min := 100000\<rparr>"
  have 1: "grows s ?s2 \<and> since s ?s2 = [ITERATION iter]"
    by (rule grows_first) (simp add: emit_def)
  have 2: "probe_inv cfg a iter ?s2 (Z_STEPPER_COUNT cfg) (probe_loop cfg env a iter 0 ?s2)"
    using ok by (rule probe_loop_trace_ok)
  have 3: "grows ?s2 (probe_loop cfg env a iter 0 ?s2)"
    using 2 by (simp add: probe_inv_def)
  show ?thesis
    using grows_trans [OF conjunct1 [OF 1] 3] 1 2
    by (simp add: probe_all_def ITERATION_def probe_inv_def emit_def)
qed

lemma probe_all_trace_fault:
  assumes f: "f < Z_STEPPER_COUNT cfg" "probed_height env iter (zstepper_of cfg iter f) = None"
    and ok: "\<forall>j<f. probed_height env iter (zstepper_of cfg iter j) \<noteq> None"
  shows "grows s (probe_all cfg env a iter s)
    \<and> since s (probe_all cfg env a iter s)
        = ITERATION iter
          # concat (map (probe_events cfg a iter (z_auto_align_pos s) (z_probe s)) [0..<Suc f])
          @ [Echo ''Probing failed.'']
    \<and> err_break (probe_all cfg env a iter s)"
proof -
  let ?s2 = "(emit (ITERATION iter) s)\<lparr>z_measured_min := 100000\<rparr>"
  have 1: "grows s ?s2 \<and> since s ?s2 = [ITERATION iter]"
    by (rule grows_first) (simp add: emit_def)
  note 2 = probe_loop_trace_fault [OF f ok, of ?s2 a]
  show ?thesis
    using grows_trans [OF conjunct1 [OF 1] conjunct1 [OF 2]] 1 2
    by (simp add: probe_all_def ITERATION_def emit_def)
qed

lemma probed_positions_append:
  "probed_positions (xs @ ys) = probed_positions xs @ probed_positions ys"
  by (induction xs rule: probed_positions.induct) simp_all

lemma probed_positions_probe_events:
  "probed_positions (probe_events cfg a iter pos zp j) = [pos ! zstepper_of cfg iter j]"
  by (simp add: probe_events_def)

lemma probed_positions_concat:
  "probed_positions (concat (map (probe_events cfg a iter pos zp) js))
     = map (\<lambda>j. pos ! zstepper_of cfg iter j) js"
  by (induction js) (simp_all add: probed_positions_append probed_positions_probe_events)

lemma probe_order_parity:
  "probe_order cfg iter =
     (if even iter then [0..<Z_STEPPER_COUNT cfg] else rev [0..<Z_STEPPER_COUNT cfg])"
  by (simp add: probe_order_def zstepper_of_def Z_STEPPER_COUNT_def and_one_eq upt_rec
        odd_iff_mod_2_eq_one)

lemma tune_amplification_fields:
  "out (tune_amplification a iter z s) = out s"
  "err_break (tune_amplification a iter z s) = err_break s"
  "z_measured (tune_amplification a iter z s) = z_measured s"
  "z_measured_min (tune_amplification a iter z s) = z_measured_min s"
  "last_z_align_move (tune_amplification a iter z s) = last_z_align_move s"
  "success_break (tune_amplification a iter z s) = success_break s"
  by (simp_all add: tune_amplification_def)


lemma out_set_all_z_lock: "out (set_all_z_lock cfg b s) = out s @ lock_events cfg b"
  by (simp add: prim_defs lock_events_def Let_def)

lemma out_unlock_one: "out (unlock_one cfg z s) = out s @ unlock_events cfg z"
  by (simp add: prim_defs unlock_events_def)

lemma apply_correction_fields:
  "\<exists>target. out (apply_correction cfg a z s)
      = out s @ lock_events cfg True @ unlock_events cfg z @ [MoveToZ target]"
  "err_break (apply_correction cfg a z s) = err_break s"
  "z_measured (apply_correction cfg a z s) = z_measured s"
  "z_measured_min (apply_correction cfg a z s) = z_measured_min s"
  "last_z_align_move (apply_correction cfg a z s) = (last_z_align_move s)[z := z_align_abs z s]"
  "success_break (apply_correction cfg a z s)
     = (success_break s \<and> z_align_abs z s \<le> z_auto_align_accuracy a)"
  by (simp_all add: apply_correction_def prim_defs lock_events_def unlock_events_def Let_def)

lemma filter_lock_events [simp]:
  "filter is_probe (lock_events cfg b) = []" "filter is_move (lock_events cfg b) = []"
  "filter is_probe (unlock_events cfg z) = []" "filter is_move (unlock_events cfg z) = []"
  "filter notable (lock_events cfg b) = []" "filter notable (unlock_events cfg z) = []"
  by (simp_all add: lock_events_def unlock_events_def)





subsection \<open>Probe order\<close>

text \<open>
  C9. The steppers are probed in ascending order in iterations with an even index and
  in descending order in those with an odd index, so the order of each iteration is the
  reverse of the order of the iteration before. \<open>probe_order\<close> is the order of the
  loop of line 166; the positions probed in an iteration in which every probe gives a
  reading are the positions of the steppers in that order.
\<close>

theorem probe_order_alternates:
  "probe_order cfg iter =
     (if even iter then [0..<Z_STEPPER_COUNT cfg] else rev [0..<Z_STEPPER_COUNT cfg])
   \<and> probe_order cfg (Suc iter) = rev (probe_order cfg iter)
   \<and> ((\<forall>j<Z_STEPPER_COUNT cfg. probed_height env iter (zstepper_of cfg iter j) \<noteq> None) \<longrightarrow>
        probed_positions (since s (probe_all cfg env a iter s))
          = map (\<lambda>z. z_auto_align_pos s ! z) (probe_order cfg iter))"
proof -
  have "probed_positions (since s (probe_all cfg env a iter s))
          = map (\<lambda>z. z_auto_align_pos s ! z) (probe_order cfg iter)"
    if "\<forall>j<Z_STEPPER_COUNT cfg. probed_height env iter (zstepper_of cfg iter j) \<noteq> None"
    using probe_all_trace_ok [OF that, of s a]
    by (simp add: probed_positions_concat probe_order_def ITERATION_def comp_def)
  then show ?thesis
    by (simp add: probe_order_parity)
qed

theorem probe_order_alternates_witness:
  "probe_order cfg2 0 = [0, 1] \<and> probe_order cfg2 1 = [1, 0] \<and> probe_order cfg2 2 = [0, 1]
   \<and> probed_positions (since (G34_prepare cfg2 env_level a_ok m0)
        (probe_all cfg2 env_level a_ok 0 (G34_prepare cfg2 env_level a_ok m0)))
      = [(10, 10), (200, 200)]
   \<and> probed_positions (since (G34_prepare cfg2 env_level a_ok m0)
        (probe_all cfg2 env_level a_ok 1 (G34_prepare cfg2 env_level a_ok m0)))
      = [(200, 200), (10, 10)]"
proof -
  let ?s = "G34_prepare cfg2 env_level a_ok m0"
  have p: "z_auto_align_pos ?s = [(10, 10), (200, 200)]"
    by (simp add: G34_prepare_settings m0_def)
  have ok: "\<forall>j<Z_STEPPER_COUNT cfg2. probed_height env_level k (zstepper_of cfg2 k j) \<noteq> None" for k
    by (simp add: env_level_def heights_level_def)
  have o: "probe_order cfg2 0 = [0, 1]" "probe_order cfg2 1 = [1, 0]" "probe_order cfg2 2 = [0, 1]"
    by (simp_all add: probe_order_def zstepper_of_def Z_STEPPER_COUNT_def cfg2_def upt_rec)
  show ?thesis
    using probe_order_alternates [of cfg2 0 env_level ?s a_ok]
      probe_order_alternates [of cfg2 1 env_level ?s a_ok] ok
    by (simp add: p o)
qed

subsection \<open>Clearance moves\<close>

text \<open>
  C3 (as amended). In the first iteration (index 0) the machine moves to the current
  clearance height \<open>z_probe\<close> before every probe, the first one included. In every
  later iteration the move is made before every probe but the first: the first probe
  of an iteration with index 1 or more follows the announcement of the iteration
  directly. The statement gives the events of the probing phase of any iteration from
  any state, when all probes give a reading and when the probe at position \<open>f\<close> of the
  sequence is the first that fails.
\<close>

theorem clearance_moves:
  "((\<forall>j<Z_STEPPER_COUNT cfg. probed_height env iter (zstepper_of cfg iter j) \<noteq> None) \<longrightarrow>
      since s (probe_all cfg env a iter s) =
        ITERATION iter
        # concat (map (\<lambda>j. (if iter = 0 \<or> 0 < j then [MoveToZ (z_probe s)] else [])
                            @ [ProbeAtPoint (z_auto_align_pos s ! zstepper_of cfg iter j)
                                 (raise_after a)])
                   [0..<Z_STEPPER_COUNT cfg]))
   \<and> (f < Z_STEPPER_COUNT cfg \<longrightarrow> probed_height env iter (zstepper_of cfg iter f) = None
      \<longrightarrow> (\<forall>j<f. probed_height env iter (zstepper_of cfg iter j) \<noteq> None) \<longrightarrow>
      since s (probe_all cfg env a iter s) =
        ITERATION iter
        # concat (map (\<lambda>j. (if iter = 0 \<or> 0 < j then [MoveToZ (z_probe s)] else [])
                            @ [ProbeAtPoint (z_auto_align_pos s ! zstepper_of cfg iter j)
                                 (raise_after a)])
                   [0..<Suc f])
        @ [Echo ''Probing failed.''])"
  using probe_all_trace_ok [of cfg env iter s a] probe_all_trace_fault [of f cfg env iter s a]
  by (simp add: probe_events_def [abs_def])

theorem clearance_moves_witness:
  "since (G34_prepare cfg2 env_level a_ok m0)
     (probe_all cfg2 env_level a_ok 0 (G34_prepare cfg2 env_level a_ok m0)) =
     [ITERATION 0, MoveToZ 5, ProbeAtPoint (10, 10) PROBE_PT_RAISE,
      MoveToZ 5, ProbeAtPoint (200, 200) PROBE_PT_RAISE]
   \<and> since (G34_prepare cfg2 env_level a_ok m0)
     (probe_all cfg2 env_level a_ok 1 (G34_prepare cfg2 env_level a_ok m0)) =
     [ITERATION 1, ProbeAtPoint (200, 200) PROBE_PT_RAISE,
      MoveToZ 5, ProbeAtPoint (10, 10) PROBE_PT_RAISE]
   \<and> since (G34_prepare cfg2 env_fault a_ok m0)
     (probe_all cfg2 env_fault a_ok 1 (G34_prepare cfg2 env_fault a_ok m0)) =
     [ITERATION 1, ProbeAtPoint (200, 200) PROBE_PT_RAISE, Echo ''Probing failed.'']"
proof -
  let ?s = "G34_prepare cfg2 env_level a_ok m0"
  let ?t = "G34_prepare cfg2 env_fault a_ok m0"
  have p: "z_auto_align_pos ?s = [(10, 10), (200, 200)]" "z_probe ?s = 5"
    "z_auto_align_pos ?t = [(10, 10), (200, 200)]" "z_probe ?t = 5"
    by (simp_all add: run_defs prim_defs m0_def cfg2_def)
  have ok: "\<forall>j<Z_STEPPER_COUNT cfg2. probed_height env_level k (zstepper_of cfg2 k j) \<noteq> None" for k
    by (simp add: env_level_def heights_level_def)
  have bad: "probed_height env_fault k z = None" for k z
    by (simp add: env_fault_def heights_fault_def)
  have n: "Z_STEPPER_COUNT cfg2 = 2" "raise_after a_ok = PROBE_PT_RAISE"
    by (simp_all add: Z_STEPPER_COUNT_def cfg2_def a_ok_def)
  note c0 = clearance_moves [where cfg = cfg2 and env = env_level and iter = 0 and s = ?s
          and a = a_ok and f = 0, THEN conjunct1, THEN mp, OF ok]
  note c1 = clearance_moves [where cfg = cfg2 and env = env_level and iter = 1 and s = ?s
          and a = a_ok and f = 0, THEN conjunct1, THEN mp, OF ok]
  have "0 < Z_STEPPER_COUNT cfg2" by (simp add: n)
  note c2 = clearance_moves [where cfg = cfg2 and env = env_fault and iter = 1 and s = ?t
          and a = a_ok and f = 0, THEN conjunct2, THEN mp, THEN mp, THEN mp, OF this bad]
  show ?thesis
    using c0 c1 c2 by (simp add: p n zstepper_of_def upt_rec)
qed

text \<open>
  The claim as stated has it the other way round. In this run the very first probe is
  preceded by a clearance move, and the first probe of the second iteration is not.
\<close>

theorem first_probe_of_later_iteration_not_cleared:
  "take 3 (drop 3 (out (G34 cfg2 env_level a_ok m0))) =
     [ITERATION 0, MoveToZ 5, ProbeAtPoint (10, 10) PROBE_PT_RAISE]
   \<and> take 2 (drop 23 (out (G34 cfg2 env_level a_ok m0))) =
     [ITERATION 1, ProbeAtPoint (200, 200) PROBE_PT_RAISE]"
  by (simp add: eval_defs ITERATION_def)

subsection \<open>Both phases of an iteration\<close>

lemma out_update_clearance:
  "\<exists>es. out (update_clearance cfg s) = out s @ es \<and> filter is_probe es = []
        \<and> filter is_move es = []"
  by (simp add: update_clearance_def emit_def Let_def)


lemma correct_loop_no_probe:
  "grows s (correct_loop cfg a iter z s) \<and> filter is_probe (since s (correct_loop cfg a iter z s)) = []"
proof (rule correct_loop_rule [where I = "\<lambda>z t. grows s t \<and> filter is_probe (since s t) = []"])
  show "grows s s \<and> filter is_probe (since s s) = []" by simp
next
  fix z and t :: frame
  assume a: "grows s t \<and> filter is_probe (since s t) = []"
  obtain target where o: "out (apply_correction cfg a z (tune_amplification a iter z t))
      = out t @ (lock_events cfg True @ unlock_events cfg z @ [MoveToZ target])"
    using apply_correction_fields(1) [of cfg a z "tune_amplification a iter z t"]
    by (auto simp: tune_amplification_fields)
  show "grows s (apply_correction cfg a z (tune_amplification a iter z t))
      \<and> filter is_probe (since s (apply_correction cfg a z (tune_amplification a iter z t))) = []"
    using grows_app [OF conjunct1 [OF a] o] a by simp
  have o2: "out ((emit (Echo ''Decreasing accuracy detected.'') (tune_amplification a iter z t))\<lparr>err_break := True\<rparr>)
      = out t @ [Echo ''Decreasing accuracy detected.'']"
    by (simp add: emit_def tune_amplification_fields)
  show "grows s ((emit (Echo ''Decreasing accuracy detected.'') (tune_amplification a iter z t))\<lparr>err_break := True\<rparr>)
      \<and> filter is_probe (since s ((emit (Echo ''Decreasing accuracy detected.'') (tune_amplification a iter z t))\<lparr>err_break := True\<rparr>)) = []"
    using grows_app [OF conjunct1 [OF a] o2] a by simp
qed

lemma correct_all_no_probe:
  "grows s (correct_all cfg a iter s) \<and> filter is_probe (since s (correct_all cfg a iter s)) = []"
proof -
  let ?s3 = "(set_separate_multi_axis True (update_clearance cfg s))\<lparr>success_break := True\<rparr>"
  let ?s4 = "correct_loop cfg a iter 0 ?s3"
  obtain es where es: "out (update_clearance cfg s) = out s @ es" "filter is_probe es = []"
    using out_update_clearance by blast
  have "out ?s3 = out s @ (es @ [SeparateMultiAxis True])"
    using es by (simp add: prim_defs)
  then have 1: "grows s ?s3 \<and> since s ?s3 = es @ [SeparateMultiAxis True]"
    by (rule grows_first)
  note 2 = correct_loop_no_probe [of ?s3 cfg a iter 0]
  note 3 = grows_trans [OF conjunct1 [OF 1] conjunct1 [OF 2]]
  have "out (correct_all cfg a iter s) = out ?s4 @ (lock_events cfg False @ [SeparateMultiAxis False])"
    by (simp add: correct_all_def Let_def out_set_all_z_lock set_separate_multi_axis_def emit_def)
  from grows_app [OF conjunct1 [OF 3] this] show ?thesis
    using 1 2 3 es by simp
qed

lemma probe_loop_keeps:
  "last_z_align_move (probe_loop cfg env a iter iz s) = last_z_align_move s
   \<and> amplification (probe_loop cfg env a iter iz s) = amplification s
   \<and> z_probe (probe_loop cfg env a iter iz s) = z_probe s"
  by (rule probe_loop_rule [where I = "\<lambda>_ t. last_z_align_move t = last_z_align_move s
        \<and> amplification t = amplification s \<and> z_probe t = z_probe s"])
     (simp_all add: probe_point_def store_measurement_def prim_defs Let_def)

lemma probe_all_keeps:
  "last_z_align_move (probe_all cfg env a iter s) = last_z_align_move s
   \<and> amplification (probe_all cfg env a iter s) = amplification s
   \<and> z_probe (probe_all cfg env a iter s) = z_probe s"
  by (simp add: probe_all_def Let_def probe_loop_keeps emit_def)

lemma filter_probe_events:
  "length (filter is_probe (concat (map (probe_events cfg a iter pos zp) js))) = length js"
  by (induction js) (simp_all add: probe_events_def)

lemma G34_aborted:
  assumes "WITHIN (sint (z_auto_align_iterations a)) 1 30"
    and "WITHIN (z_auto_align_accuracy a) 0.01 1.0"
    and "WITHIN \<bar>z_auto_align_amplification a\<bar> 0.5 2.0"
    and "err_break (iteration_loop cfg env a 0 (G34_prepare cfg env a m))"
  shows "out (G34 cfg env a m) =
           out (iteration_loop cfg env a 0 (G34_prepare cfg env a m)) @ [Echo ''G34 aborted.'']"
  using assms by (simp add: G34_def emit_def machine.truncate_def Let_def)

subsection \<open>Probes per iteration and probe faults\<close>

text \<open>
  C7. An iteration in which every probe gives a reading takes exactly
  \<open>Z_STEPPER_COUNT\<close> probe measurements, one per stepper. When a probe fails (the one
  at position \<open>f\<close> of the sequence being the first), the iteration consists of the
  probing up to that point and the message ``Probing failed.'' only: no correction is
  computed (\<open>last_z_align_move\<close>, \<open>amplification\<close> and \<open>z_probe\<close> are as before) or
  applied (no lock and no move follows the failed probe), the iteration loop ends at
  once, and G34 goes on to print ``G34 aborted.'' and nothing else.
\<close>

theorem probes_per_iteration:
  "((\<forall>j<Z_STEPPER_COUNT cfg. probed_height env iter (zstepper_of cfg iter j) \<noteq> None) \<longrightarrow>
      length (filter is_probe (since s (iteration_body cfg env a iter s))) = Z_STEPPER_COUNT cfg)
   \<and> (f < Z_STEPPER_COUNT cfg \<longrightarrow> probed_height env iter (zstepper_of cfg iter f) = None
      \<longrightarrow> (\<forall>j<f. probed_height env iter (zstepper_of cfg iter j) \<noteq> None) \<longrightarrow>
      iteration_body cfg env a iter s = probe_all cfg env a iter s
      \<and> err_break (iteration_body cfg env a iter s)
      \<and> since s (iteration_body cfg env a iter s) =
          ITERATION iter
          # concat (map (probe_events cfg a iter (z_auto_align_pos s) (z_probe s)) [0..<Suc f])
          @ [Echo ''Probing failed.'']
      \<and> last_z_align_move (iteration_body cfg env a iter s) = last_z_align_move s
      \<and> amplification (iteration_body cfg env a iter s) = amplification s
      \<and> z_probe (iteration_body cfg env a iter s) = z_probe s
      \<and> (int iter < sint (z_auto_align_iterations a) \<longrightarrow>
           iteration_loop cfg env a iter s = (iteration_body cfg env a iter s)\<lparr>iteration := iter\<rparr>))
   \<and> (WITHIN (sint (z_auto_align_iterations a)) 1 30 \<longrightarrow>
      WITHIN (z_auto_align_accuracy a) 0.01 1.0 \<longrightarrow>
      WITHIN \<bar>z_auto_align_amplification a\<bar> 0.5 2.0 \<longrightarrow>
      err_break (iteration_loop cfg env a 0 (G34_prepare cfg env a m)) \<longrightarrow>
      out (G34 cfg env a m) =
        out (iteration_loop cfg env a 0 (G34_prepare cfg env a m)) @ [Echo ''G34 aborted.''])"
proof -
  have A: "length (filter is_probe (since s (iteration_body cfg env a iter s))) = Z_STEPPER_COUNT cfg"
    if ok: "\<forall>j<Z_STEPPER_COUNT cfg. probed_height env iter (zstepper_of cfg iter j) \<noteq> None"
  proof -
    note p = probe_all_trace_ok [OF ok, of s a]
    let ?p = "probe_all cfg env a iter s"
    show ?thesis
    proof (cases "err_break ?p")
      case True
      then show ?thesis using p
        by (simp add: iteration_body_def Let_def filter_probe_events ITERATION_def)
    next
      case False
      note c = correct_all_no_probe [of ?p cfg a iter]
      note t = grows_trans [OF conjunct1 [OF p] conjunct1 [OF c]]
      show ?thesis using False p c t
        by (simp add: iteration_body_def Let_def filter_probe_events ITERATION_def)
    qed
  qed
  have B: "iteration_body cfg env a iter s = probe_all cfg env a iter s
      \<and> err_break (iteration_body cfg env a iter s)
      \<and> since s (iteration_body cfg env a iter s) =
          ITERATION iter
          # concat (map (probe_events cfg a iter (z_auto_align_pos s) (z_probe s)) [0..<Suc f])
          @ [Echo ''Probing failed.'']
      \<and> last_z_align_move (iteration_body cfg env a iter s) = last_z_align_move s
      \<and> amplification (iteration_body cfg env a iter s) = amplification s
      \<and> z_probe (iteration_body cfg env a iter s) = z_probe s
      \<and> (int iter < sint (z_auto_align_iterations a) \<longrightarrow>
           iteration_loop cfg env a iter s = (iteration_body cfg env a iter s)\<lparr>iteration := iter\<rparr>)"
    if f: "f < Z_STEPPER_COUNT cfg" "probed_height env iter (zstepper_of cfg iter f) = None"
      "\<forall>j<f. probed_height env iter (zstepper_of cfg iter j) \<noteq> None"
  proof -
    note p = probe_all_trace_fault [OF f, of s a]
    then have b: "iteration_body cfg env a iter s = probe_all cfg env a iter s"
      by (simp add: iteration_body_def Let_def)
    show ?thesis
      unfolding b using p by (simp add: probe_all_keeps iteration_loop_err b)
  qed
  show ?thesis
    using A B G34_aborted [of a cfg env m] by blast
qed

theorem probes_per_iteration_witness:
  "length (filter is_probe (since (G34_prepare cfg2 env_level a_ok m0)
      (iteration_body cfg2 env_level a_ok 0 (G34_prepare cfg2 env_level a_ok m0)))) = 2
   \<and> since (G34_prepare cfg2 env_fault a_ok m0)
       (iteration_body cfg2 env_fault a_ok 0 (G34_prepare cfg2 env_fault a_ok m0)) =
       [ITERATION 0, MoveToZ 5, ProbeAtPoint (10, 10) PROBE_PT_RAISE, Echo ''Probing failed.'']
   \<and> last_z_align_move (iteration_body cfg2 env_fault a_ok 0 (G34_prepare cfg2 env_fault a_ok m0))
       = [10000, 10000]
   \<and> iteration_loop cfg2 env_fault a_ok 0 (G34_prepare cfg2 env_fault a_ok m0) =
       (iteration_body cfg2 env_fault a_ok 0 (G34_prepare cfg2 env_fault a_ok m0))\<lparr>iteration := 0\<rparr>
   \<and> out (G34 cfg2 env_fault a_ok m0) =
       out (iteration_loop cfg2 env_fault a_ok 0 (G34_prepare cfg2 env_fault a_ok m0))
       @ [Echo ''G34 aborted.'']"
proof -
  let ?s = "G34_prepare cfg2 env_level a_ok m0"
  let ?t = "G34_prepare cfg2 env_fault a_ok m0"
  have p: "z_auto_align_pos ?t = [(10, 10), (200, 200)]" "z_probe ?t = 5"
    "last_z_align_move ?t = [10000, 10000]"
    by (simp_all add: run_defs prim_defs m0_def cfg2_def numeral_2_eq_2)
  have n: "Z_STEPPER_COUNT cfg2 = 2" "raise_after a_ok = PROBE_PT_RAISE"
    by (simp_all add: Z_STEPPER_COUNT_def cfg2_def a_ok_def)
  have v: "WITHIN (sint (z_auto_align_iterations a_ok)) 1 30"
    "WITHIN (z_auto_align_accuracy a_ok) 0.01 1.0"
    "WITHIN \<bar>z_auto_align_amplification a_ok\<bar> 0.5 2.0"
    by (simp_all add: WITHIN_def a_ok_def)
  have i: "int 0 < sint (z_auto_align_iterations a_ok)"
    by (simp add: a_ok_def)
  have ok: "\<forall>j<Z_STEPPER_COUNT cfg2. probed_height env_level 0 (zstepper_of cfg2 0 j) \<noteq> None"
    by (simp add: env_level_def heights_level_def)
  have bad: "probed_height env_fault k z = None" for k z
    by (simp add: env_fault_def heights_fault_def)
  have f0: "0 < Z_STEPPER_COUNT cfg2" by (simp add: n)
  have none: "\<forall>j<0::nat. probed_height env_fault 0 (zstepper_of cfg2 0 j) \<noteq> None" by simp
  have e: "err_break (iteration_loop cfg2 env_fault a_ok 0 ?t)"
    by (simp add: eval_defs)
  note A = probes_per_iteration [where cfg = cfg2 and env = env_level and iter = 0 and s = ?s
      and a = a_ok, THEN conjunct1, THEN mp, OF ok]
  note B = probes_per_iteration [where cfg = cfg2 and env = env_fault and iter = 0 and s = ?t
      and a = a_ok and f = 0, THEN conjunct2, THEN conjunct1, THEN mp, THEN mp, THEN mp,
      OF f0 bad none]
  note C = probes_per_iteration [where cfg = cfg2 and env = env_fault and a = a_ok and m = m0,
      THEN conjunct2, THEN conjunct2, THEN mp, THEN mp, THEN mp, THEN mp, OF v e]
  note B3 = B [THEN conjunct2, THEN conjunct2, THEN conjunct1]
  note B4 = B [THEN conjunct2, THEN conjunct2, THEN conjunct2, THEN conjunct1]
  note B7 = B [THEN conjunct2, THEN conjunct2, THEN conjunct2, THEN conjunct2, THEN conjunct2,
      THEN conjunct2, THEN mp, OF i]
  show ?thesis
    using A B3 B4 B7 C by (simp add: p n probe_events_def zstepper_of_def)
qed

subsection \<open>The lock discipline holds along a run\<close>





lemma locks_of_emit [simp]: "locks_of (emit e s) = locks_of s"
  by (simp add: locks_of_def emit_def)

lemma locks_of_updates [simp]:
  "locks_of (s\<lparr>err_break := b\<rparr>) = locks_of s"
  "locks_of (s\<lparr>success_break := b\<rparr>) = locks_of s"
  "locks_of (s\<lparr>iteration := k\<rparr>) = locks_of s"
  "locks_of (s\<lparr>z_measured_min := x\<rparr>) = locks_of s"
  by (simp_all add: locks_of_def emit_def)

lemma out_emit [simp]: "out (emit e s) = out s @ [e]"
  by (simp add: emit_def)

lemma out_updates [simp]:
  "out (s\<lparr>err_break := b\<rparr>) = out s"
  "out (s\<lparr>success_break := b\<rparr>) = out s"
  "out (s\<lparr>iteration := k\<rparr>) = out s"
  "out (s\<lparr>z_measured_min := x\<rparr>) = out s"
  by (simp_all add: emit_def)





lemma locks_of_tune_amplification [simp]:
  "locks_of (tune_amplification a iter z s) = locks_of s"
  by (simp add: locks_of_def tune_amplification_def)



lemma correcting_one_unlocked [simp]: "correcting cfg (one_unlocked cfg z)"
  by (simp add: correcting_def one_unlocked_def)












subsection \<open>Lock discipline\<close>




subsection \<open>Data of the correction phase\<close>










subsection \<open>The test for decreasing accuracy\<close>




subsection \<open>The amplification\<close>






subsection \<open>The gain of a correction\<close>



subsection \<open>The iteration loop: convergence and exhaustion\<close>




















lemma announces_ITERATION [simp]: "filter announces (map ITERATION ks) = map ITERATION ks"
  by (induction ks) (simp_all add: ITERATION_def)

lemma Echo_not_ITERATION [simp]:
  "Echo x \<notin> ITERATION ` S" "Echo x \<noteq> ITERATION k" "ITERATION k \<noteq> Echo x"
  "announces (ITERATION k)" "notable (ITERATION k)"
  by (auto simp: ITERATION_def)




end
